theory Spec2Isabelle
  imports Complex_Main "HOL-Library.Sublist" "HOL-Library.Multiset"
begin

section \<open>Data model\<close>

text \<open>
  The Python dataclasses of \<^verbatim>\<open>accommodation_agent.py\<close> and
  \<^verbatim>\<open>advanced_accommodation_agent.py\<close> become records.  Python floats are
  modelled as exact reals in the scoring and as rounded doubles in the price parser, the
  text fields of a listing as strings of 8-bit characters, the text given to the price
  parser as a list of Unicode code points, an
  \<^verbatim>\<open>Optional[T]\<close> field as \<open>T option\<close>, and a raised exception as the left
  summand of a result.
\<close>

datatype py_error = ZeroDivisionError | ValueError | TypeError | WebDriverException

record SearchCriteria =
  location :: string
  check_in :: string
  check_out :: string
  guests :: int
  max_price_per_night :: real
  property_type :: string
  amenities :: "string list"

record PropertyListing =
  platform :: string
  title :: string
  price_per_night :: real
  total_price :: real
  location :: string
  rating :: "real option"
  review_count :: "int option"
  amenities :: "string list"
  url :: string
  property_type :: string
  host_name :: "string option"
  instant_book :: bool
  cancellation_policy :: "string option"

record DetailedPropertyListing = PropertyListing +
  description :: "string option"
  bedrooms :: "int option"
  bathrooms :: "int option"
  max_guests :: "int option"
  square_meters :: "real option"
  cleaning_fee :: "real option"
  service_fee :: "real option"
  taxes :: "real option"
  security_deposit :: "real option"
  weekly_discount :: "real option"
  monthly_discount :: "real option"
  availability_calendar :: "(string \<times> string) list option"
  minimum_stay :: "int option"
  maximum_stay :: "int option"
  host_rating :: "real option"
  host_response_time :: "string option"
  host_response_rate :: "real option"
  host_verification :: "string list option"
  property_features :: "string list option"
  house_rules :: "string list option"
  cancellation_policy_details :: "string option"
  value_score :: "real option"
  location_score :: "real option"
  overall_score :: "real option"

text \<open>
  The dictionary that \<^verbatim>\<open>extract_detailed_property_info\<close> builds from the property
  page.  It can hold thirteen keys; a field here is \<open>None\<close> when the key is absent (or,
  for \<^verbatim>\<open>description\<close>, present with the value \<^verbatim>\<open>None\<close>).  The extractor stores
  \<^verbatim>\<open>host_name\<close> before it tries \<^verbatim>\<open>host_rating\<close> and
  \<^verbatim>\<open>host_response_time\<close>.
\<close>

record detailed_info =
  info_description :: "string option"
  info_bedrooms :: "int option"
  info_bathrooms :: "int option"
  info_max_guests :: "int option"
  info_cleaning_fee :: "real option"
  info_service_fee :: "real option"
  info_taxes :: "real option"
  info_security_deposit :: "real option"
  info_host_name :: "string option"
  info_host_rating :: "real option"
  info_host_response_time :: "string option"
  info_property_features :: "string list option"
  info_house_rules :: "string list option"

text \<open>
  The values stored in the insight dictionary of \<^verbatim>\<open>generate_market_insights\<close>: the
  per-platform statistics dictionary, and one constructor per insight key.  Dictionaries are
  association lists in insertion order.
\<close>

record platform_stat =
  count :: nat
  avg_price :: real
  prices :: "real list"

datatype insight =
    PriceDistribution real real real real
  | PlatformComparison "(string \<times> platform_stat) list"
  | PopularAmenities "(string \<times> nat) list"

section \<open>Exceptions as results\<close>

definition py_bind :: "py_error + 'a \<Rightarrow> ('a \<Rightarrow> py_error + 'b) \<Rightarrow> py_error + 'b" where
  "py_bind m f = (case m of Inl e \<Rightarrow> Inl e | Inr v \<Rightarrow> f v)"

definition py_truediv :: "real \<Rightarrow> real \<Rightarrow> py_error + real" where
  "py_truediv a b = (if b = 0 then Inl ZeroDivisionError else Inr (a / b))"

section \<open>Price parser\<close>

text \<open>
  A Python \<^verbatim>\<open>str\<close> is a sequence of Unicode code points: the price text is a list of
  natural numbers, \<open>ord\<close> of a character is its code point and \<open>str\<close> turns a literal
  into such a text.  The pattern class \<^verbatim>\<open>\d\<close> and \<^verbatim>\<open>float\<close> both recognise
  the characters with the Unicode decimal property (category Nd, Unicode 14): 66 runs of
  ten consecutive code points for the digits 0 to 9, listed by their first code point.
\<close>

definition ord :: "char \<Rightarrow> nat" where
  "ord c = of_char c"

definition str :: "string \<Rightarrow> nat list" where
  "str s = map ord s"

definition nd_run_starts :: "nat list" where
  "nd_run_starts = [48, 1632, 1776, 1984, 2406, 2534, 2662, 2790, 2918, 3046, 3174, 3302, 3430,
     3558, 3664, 3792, 3872, 4160, 4240, 6112, 6160, 6470, 6608, 6784, 6800, 6992, 7088, 7232,
     7248, 42528, 43216, 43264, 43472, 43504, 43600, 44016, 65296, 66720, 68912, 69734, 69872,
     69942, 70096, 70384, 70736, 70864, 71248, 71360, 71472, 71904, 72016, 72784, 73040, 73120,
     92768, 92864, 93008, 120782, 120792, 120802, 120812, 120822, 123200, 123632, 125264,
     130032]"

definition unicode_decimal :: "nat \<Rightarrow> nat option" where
  "unicode_decimal c =
     (case filter (\<lambda>start. start \<le> c \<and> c < start + 10) nd_run_starts of
        [] \<Rightarrow> None
      | start # _ \<Rightarrow> Some (c - start))"

definition is_digit :: "nat \<Rightarrow> bool" where
  "is_digit c = (unicode_decimal c \<noteq> None)"

definition digit_value :: "nat \<Rightarrow> nat" where
  "digit_value c = (case unicode_decimal c of None \<Rightarrow> 0 | Some d \<Rightarrow> d)"

definition digits_value :: "nat list \<Rightarrow> nat" where
  "digits_value ds = foldl (\<lambda>acc c. 10 * acc + digit_value c) 0 ds"

text \<open>
  \<^verbatim>\<open>float\<close> converts a decimal string to the nearest IEEE 754 double, ties to the even
  significand, and to infinity beyond the double range.  For a value \<open>x > 0\<close> the binary
  exponent is \<open>\<lfloor>log 2 x\<rfloor>\<close>, not below \<open>-1022\<close> (subnormal numbers), the spacing of
  the doubles there is \<open>2 powr (e - 52)\<close>, and a rounded value of \<open>2 ^ 1024\<close> or more is
  infinite.  Only non-negative values occur, since the pattern matches no sign.
\<close>

datatype double = Finite real | Infinity

definition round_half_even :: "real \<Rightarrow> int" where
  "round_half_even q =
     (let f = \<lfloor>q\<rfloor>; r = q - of_int f
      in if r < 1 / 2 then f else if r > 1 / 2 then f + 1 else if even f then f else f + 1)"

definition to_double :: "real \<Rightarrow> double" where
  "to_double x =
     (if x = 0 then Finite 0
      else let e = max \<lfloor>log 2 x\<rfloor> (- 1022);
               ulp = 2 powr (of_int (e - 52));
               r = of_int (round_half_even (x / ulp)) * ulp
           in if 2 ^ 1024 \<le> r then Infinity else Finite r)"

text \<open>
  \<^verbatim>\<open>extract_price\<close> removes every comma, searches the pattern
  \<^verbatim>\<open>[\d,]+\.?\d*\<close> and converts the match with \<^verbatim>\<open>float\<close>; the whole body sits
  in a \<^verbatim>\<open>try\<close> whose handler returns \<^verbatim>\<open>0.0\<close>.  The search takes the leftmost
  position holding a digit or a comma; every later part of the pattern may match the empty
  string, so the greedy match never backtracks.  \<open>py_float\<close> models \<^verbatim>\<open>float\<close> on the
  strings that pattern can match (digits, commas and dots, starting with a digit or a
  comma): digits with an optional dot and further digits convert, anything holding a comma
  raises \<^verbatim>\<open>ValueError\<close>.
\<close>

definition replace_comma :: "nat list \<Rightarrow> nat list" where
  "replace_comma price_text = filter (\<lambda>c. c \<noteq> ord CHR '','') price_text"

definition digit_or_comma :: "nat \<Rightarrow> bool" where
  "digit_or_comma c = (is_digit c \<or> c = ord CHR '','')"

definition match_here :: "nat list \<Rightarrow> nat list" where
  "match_here s =
     (let head = takeWhile digit_or_comma s; rest = dropWhile digit_or_comma s
      in case rest of
           [] \<Rightarrow> head
         | c # rest' \<Rightarrow> if c = ord CHR ''.'' then head @ [c] @ takeWhile is_digit rest'
                        else head @ takeWhile is_digit rest)"

fun re_search :: "nat list \<Rightarrow> nat list option" where
  "re_search [] = None"
| "re_search (c # cs) = (if digit_or_comma c then Some (match_here (c # cs)) else re_search cs)"

definition py_float :: "nat list \<Rightarrow> py_error + double" where
  "py_float s =
     (let int_part = takeWhile is_digit s; rest = dropWhile is_digit s
      in if int_part = [] then Inl ValueError
         else case rest of
                [] \<Rightarrow> Inr (to_double (real (digits_value int_part)))
              | c # frac_digits \<Rightarrow>
                  if c = ord CHR ''.'' \<and> list_all is_digit frac_digits
                  then Inr (to_double (real (digits_value int_part)
                                       + real (digits_value frac_digits) / 10 ^ length frac_digits))
                  else Inl ValueError)"

definition extract_price :: "nat list \<Rightarrow> py_error + double" where
  "extract_price price_text =
     (case (case re_search (replace_comma price_text) of
              Some price_match \<Rightarrow> py_float price_match
            | None \<Rightarrow> Inr (Finite 0.0)) of
        Inr v \<Rightarrow> Inr v
      | Inl e \<Rightarrow> Inr (Finite 0.0))"

section \<open>Constructing and merging listings\<close>

text \<open>
  The dataclass constructor called with the thirteen basic keyword arguments only: every
  extended field takes its default \<^verbatim>\<open>None\<close>.
\<close>

definition DetailedPropertyListing_init ::
  "string \<Rightarrow> string \<Rightarrow> real \<Rightarrow> real \<Rightarrow> string \<Rightarrow> real option \<Rightarrow> int option \<Rightarrow> string list \<Rightarrow> string
   \<Rightarrow> string \<Rightarrow> string option \<Rightarrow> bool \<Rightarrow> string option \<Rightarrow> DetailedPropertyListing" where
  "DetailedPropertyListing_init pf ti ppn tp loc rt rc am u pt hn ib cp =
     \<lparr> platform = pf, title = ti, price_per_night = ppn, total_price = tp, location = loc,
       rating = rt, review_count = rc, amenities = am, url = u, property_type = pt,
       host_name = hn, instant_book = ib, cancellation_policy = cp,
       description = None, bedrooms = None, bathrooms = None, max_guests = None,
       square_meters = None, cleaning_fee = None, service_fee = None, taxes = None,
       security_deposit = None, weekly_discount = None, monthly_discount = None,
       availability_calendar = None, minimum_stay = None, maximum_stay = None,
       host_rating = None, host_response_time = None, host_response_rate = None,
       host_verification = None, property_features = None, house_rules = None,
       cancellation_policy_details = None, value_score = None, location_score = None,
       overall_score = None \<rparr>"

text \<open>
  The constructor call of \<^verbatim>\<open>get_detailed_property_info\<close>: the thirteen basic keyword
  arguments followed by \<^verbatim>\<open>**detailed_info\<close>.  When the dictionary holds the key
  \<^verbatim>\<open>host_name\<close> the call passes that keyword twice and Python raises
  \<^verbatim>\<open>TypeError\<close>; every other key names an extended field.
\<close>

definition DetailedPropertyListing_kwargs ::
  "string \<Rightarrow> string \<Rightarrow> real \<Rightarrow> real \<Rightarrow> string \<Rightarrow> real option \<Rightarrow> int option \<Rightarrow> string list \<Rightarrow> string
   \<Rightarrow> string \<Rightarrow> string option \<Rightarrow> bool \<Rightarrow> string option \<Rightarrow> detailed_info
   \<Rightarrow> py_error + DetailedPropertyListing" where
  "DetailedPropertyListing_kwargs pf ti ppn tp loc rt rc am u pt hn ib cp detailed_info =
     (if info_host_name detailed_info \<noteq> None then Inl TypeError
      else Inr ((DetailedPropertyListing_init pf ti ppn tp loc rt rc am u pt hn ib cp)
             \<lparr> description := info_description detailed_info,
               bedrooms := info_bedrooms detailed_info,
               bathrooms := info_bathrooms detailed_info,
               max_guests := info_max_guests detailed_info,
               cleaning_fee := info_cleaning_fee detailed_info,
               service_fee := info_service_fee detailed_info,
               taxes := info_taxes detailed_info,
               security_deposit := info_security_deposit detailed_info,
               host_rating := info_host_rating detailed_info,
               host_response_time := info_host_response_time detailed_info,
               property_features := info_property_features detailed_info,
               house_rules := info_house_rules detailed_info \<rparr>))"

text \<open>
  \<^verbatim>\<open>get_detailed_property_info\<close>.  The argument \<open>page\<close> is the outcome of loading the
  property page and extracting the dictionary: an exception raised on the way, or the
  dictionary.  Any exception inside the \<^verbatim>\<open>try\<close>, the \<^verbatim>\<open>TypeError\<close> of the
  constructor included, leads to the handler, which builds the listing from the basic
  fields alone.  The parameter is annotated \<^verbatim>\<open>PropertyListing\<close>, so a
  \<^verbatim>\<open>DetailedPropertyListing\<close> (a subclass) is accepted as well.
\<close>

definition get_detailed_property_info ::
  "'a PropertyListing_scheme \<Rightarrow> py_error + detailed_info \<Rightarrow> DetailedPropertyListing" where
  "get_detailed_property_info listing page =
     (case py_bind page (\<lambda>detailed_info.
             DetailedPropertyListing_kwargs (platform listing) (title listing)
               (price_per_night listing) (total_price listing) (PropertyListing.location listing)
               (rating listing) (review_count listing) (PropertyListing.amenities listing)
               (url listing) (PropertyListing.property_type listing) (host_name listing)
               (instant_book listing) (cancellation_policy listing) detailed_info) of
        Inr detailed_listing \<Rightarrow> detailed_listing
      | Inl e \<Rightarrow>
          DetailedPropertyListing_init (platform listing) (title listing)
            (price_per_night listing) (total_price listing) (PropertyListing.location listing)
            (rating listing) (review_count listing) (PropertyListing.amenities listing)
            (url listing) (PropertyListing.property_type listing) (host_name listing)
            (instant_book listing) (cancellation_policy listing))"

section \<open>Scoring policy\<close>

text \<open>
  \<^verbatim>\<open>calculate_value_score\<close>: four \<^verbatim>\<open>if\<close> blocks, each adding a weighted
  sub-score to the running \<^verbatim>\<open>score\<close>.  The two divisions by a criteria value
  raise \<^verbatim>\<open>ZeroDivisionError\<close> on a zero denominator; a rating that is
  \<^verbatim>\<open>None\<close> or \<^verbatim>\<open>0.0\<close> is falsy and skipped.
\<close>

definition price_step :: "DetailedPropertyListing \<Rightarrow> SearchCriteria \<Rightarrow> real \<Rightarrow> py_error + real" where
  "price_step listing criteria score =
     (if price_per_night listing > 0
      then py_bind (py_truediv (price_per_night listing) (max_price_per_night criteria))
             (\<lambda>q. let price_score = max 0 (100 - q * 100) in Inr (score + price_score * 0.4))
      else Inr score)"

definition amenity_step :: "DetailedPropertyListing \<Rightarrow> SearchCriteria \<Rightarrow> real \<Rightarrow> py_error + real" where
  "amenity_step listing criteria score =
     (if PropertyListing.amenities listing \<noteq> []
      then py_bind (py_truediv
                     (real (length (filter (\<lambda>a. a \<in> set (PropertyListing.amenities listing))
                                           (SearchCriteria.amenities criteria))))
                     (real (length (SearchCriteria.amenities criteria))))
             (\<lambda>q. let amenity_score = q * 100 in Inr (score + amenity_score * 0.3))
      else Inr score)"

definition rating_step :: "DetailedPropertyListing \<Rightarrow> real \<Rightarrow> real" where
  "rating_step listing score =
     (case rating listing of
        None \<Rightarrow> score
      | Some r \<Rightarrow> if r \<noteq> 0 then (let rating_score = (r / 5.0) * 100 in score + rating_score * 0.2)
                  else score)"

definition host_step :: "DetailedPropertyListing \<Rightarrow> real \<Rightarrow> real" where
  "host_step listing score =
     (case host_rating listing of
        None \<Rightarrow> score
      | Some h \<Rightarrow> if h \<noteq> 0 then (let host_score = (h / 5.0) * 100 in score + host_score * 0.1)
                  else score)"

definition calculate_value_score :: "DetailedPropertyListing \<Rightarrow> SearchCriteria \<Rightarrow> py_error + real" where
  "calculate_value_score listing criteria =
     py_bind (price_step listing criteria 0.0) (\<lambda>score.
     py_bind (amenity_step listing criteria score) (\<lambda>score.
     Inr (host_step listing (rating_step listing score))))"

text \<open>
  \<^verbatim>\<open>calculate_location_score\<close> lowercases the listing's location text and tests it
  for three literal tokens.  \<^verbatim>\<open>str.lower\<close> is modelled on ASCII letters; the
  substring test \<^verbatim>\<open>in\<close> is \<^const>\<open>sublist\<close>.  The \<^verbatim>\<open>criteria\<close> parameter is
  never read.
\<close>

definition lower_char :: "char \<Rightarrow> char" where
  "lower_char c = (let n = (of_char c :: nat) in if 65 \<le> n \<and> n \<le> 90 then char_of (n + 32) else c)"

definition lower :: "string \<Rightarrow> string" where
  "lower s = map lower_char s"

definition calculate_location_score :: "DetailedPropertyListing \<Rightarrow> SearchCriteria \<Rightarrow> real" where
  "calculate_location_score listing criteria =
     (let score = 0.0 in
      if sublist ''bar'' (lower (PropertyListing.location listing)) then score + 80
      else if sublist ''sutomore'' (lower (PropertyListing.location listing))
              \<or> sublist ''petrovac'' (lower (PropertyListing.location listing)) then score + 60
      else score + 40)"

section \<open>Ranking and cohorts\<close>





definition budget_options :: "DetailedPropertyListing list \<Rightarrow> SearchCriteria \<Rightarrow> DetailedPropertyListing list" where
  "budget_options detailed_listings criteria =
     (let budget_threshold = max_price_per_night criteria * 0.8
      in filter (\<lambda>l. price_per_night l \<le> budget_threshold) detailed_listings)"

definition premium_options :: "DetailedPropertyListing list \<Rightarrow> SearchCriteria \<Rightarrow> DetailedPropertyListing list" where
  "premium_options detailed_listings criteria =
     (let premium_threshold = max_price_per_night criteria * 1.2
      in filter (\<lambda>l. price_per_night l \<ge> premium_threshold) detailed_listings)"

definition best_value :: "DetailedPropertyListing list \<Rightarrow> DetailedPropertyListing list" where
  "best_value detailed_listings = take 5 detailed_listings"



section \<open>Market insights\<close>

text \<open>
  \<^verbatim>\<open>generate_market_insights\<close>.  \<^verbatim>\<open>min\<close> and \<^verbatim>\<open>max\<close> raise
  \<^verbatim>\<open>ValueError\<close> on an empty list; the median, mean and standard deviation are
  reached only with a non-empty price list.
\<close>

definition py_min :: "real list \<Rightarrow> py_error + real" where
  "py_min xs = (case xs of [] \<Rightarrow> Inl ValueError | x # rest \<Rightarrow> Inr (fold min rest x))"

definition py_max :: "real list \<Rightarrow> py_error + real" where
  "py_max xs = (case xs of [] \<Rightarrow> Inl ValueError | x # rest \<Rightarrow> Inr (fold max rest x))"

definition np_mean :: "real list \<Rightarrow> real" where
  "np_mean xs = sum_list xs / real (length xs)"

definition np_median :: "real list \<Rightarrow> real" where
  "np_median xs =
     (let s = sort xs; n = length s
      in if n mod 2 = 1 then s ! (n div 2) else (s ! (n div 2 - 1) + s ! (n div 2)) / 2)"

definition np_std :: "real list \<Rightarrow> real" where
  "np_std xs = sqrt (np_mean (map (\<lambda>x. (x - np_mean xs)\<^sup>2) xs))"

fun platform_loop :: "DetailedPropertyListing list \<Rightarrow> (string \<times> platform_stat) list
    \<Rightarrow> (string \<times> platform_stat) list" where
  "platform_loop [] platform_stats = platform_stats"
| "platform_loop (listing # rest) platform_stats =
     (let platform = platform listing;
          platform_stats =
            (if map_of platform_stats platform = None
             then platform_stats @ [(platform, \<lparr>count = 0, avg_price = 0, prices = []\<rparr>)]
             else platform_stats);
          platform_stats =
            map (\<lambda>(k, stats). if k = platform
                   then (k, stats\<lparr>count := count stats + 1,
                                  prices := prices stats @ [price_per_night listing]\<rparr>)
                   else (k, stats)) platform_stats
      in platform_loop rest platform_stats)"

fun amenity_count_loop :: "string list \<Rightarrow> (string \<times> nat) list \<Rightarrow> (string \<times> nat) list" where
  "amenity_count_loop [] amenity_counts = amenity_counts"
| "amenity_count_loop (amenity # rest) amenity_counts =
     amenity_count_loop rest
       (case map_of amenity_counts amenity of
          None \<Rightarrow> amenity_counts @ [(amenity, 0 + 1)]
        | Some n \<Rightarrow> map (\<lambda>(k, c). if k = amenity then (k, n + 1) else (k, c)) amenity_counts)"

definition generate_market_insights ::
  "DetailedPropertyListing list \<Rightarrow> SearchCriteria \<Rightarrow> py_error + (string \<times> insight) list" where
  "generate_market_insights listings criteria =
     (let insights = [] in
      if listings = [] then Inr insights
      else
        let prices = map price_per_night (filter (\<lambda>l. price_per_night l > 0) listings) in
        py_bind (py_min prices) (\<lambda>mn.
        py_bind (py_max prices) (\<lambda>mx.
          let insights = insights @
                [(''price_distribution'', PriceDistribution mn mx (np_median prices) (np_std prices))];
              platform_stats = platform_loop listings [];
              platform_stats = map (\<lambda>(platform, stats).
                                 (platform, stats\<lparr>avg_price := np_mean (platform_stat.prices stats)\<rparr>)) platform_stats;
              insights = insights @ [(''platform_comparison'', PlatformComparison platform_stats)];
              amenity_counts = amenity_count_loop (concat (map PropertyListing.amenities listings)) [];
              insights = insights @
                [(''popular_amenities'',
                  PopularAmenities (take 10 (sort_key (\<lambda>(a, c). - int c) amenity_counts)))]
          in Inr insights)))"

section \<open>Well-formed price texts\<close>

text \<open>
  The vocabulary of the parser's contract, following the specification's words rather
  than the source: a number is written as digit groups joined by commas (a first group of
  at least one digit, every later group of exactly three digits; a single group is a
  number without separators), optionally followed by a dot and fractional digits.  Its
  value is computed group by group in thousands.
\<close>

fun join_commas :: "nat list list \<Rightarrow> nat list" where
  "join_commas [] = []"
| "join_commas [g] = g"
| "join_commas (g # gs) = g @ [ord CHR '',''] @ join_commas gs"

definition thousands_value :: "nat list list \<Rightarrow> nat" where
  "thousands_value groups = foldl (\<lambda>acc g. acc * 1000 + digits_value g) 0 groups"

definition wf_groups :: "nat list list \<Rightarrow> bool" where
  "wf_groups groups = (groups \<noteq> [] \<and> hd groups \<noteq> [] \<and> list_all (list_all is_digit) groups
      \<and> list_all (\<lambda>g. length g = 3) (tl groups))"

definition frac_text :: "nat list \<Rightarrow> nat list" where
  "frac_text fs = (if fs = [] then [] else ord CHR ''.'' # fs)"

section \<open>Example inputs\<close>

text \<open>
  The criteria built in \<^verbatim>\<open>main()\<close>; the two listings of the worked example (price 35
  with two of the three amenities and rating 4.5; price 50 with all three amenities and
  rating 4.0); two detailed listings with the same overall score 90 at prices 30 and 25;
  two search results at prices 30 and 25 whose computed overall scores are both 53, and a
  page that does not load; a search for Budva; and the dictionary extracted from a page
  that shows no detail.
\<close>

definition main_criteria :: SearchCriteria where
  "main_criteria = \<lparr> SearchCriteria.location = ''Bar, Montenegro'', check_in = ''2024-09-01'',
     check_out = ''2024-09-15'', guests = 2, max_price_per_night = 40.0,
     SearchCriteria.property_type = ''entire_place'',
     SearchCriteria.amenities = [''kitchen'', ''wifi'', ''air_conditioning''] \<rparr>"

definition listing_L1 :: DetailedPropertyListing where
  "listing_L1 = DetailedPropertyListing_init ''Airbnb'' ''L1'' 35 35 ''Bar'' (Some 4.5) None
     [''kitchen'', ''wifi''] ''https://example.org/1'' ''entire_place'' None False None"

definition listing_L2 :: DetailedPropertyListing where
  "listing_L2 = DetailedPropertyListing_init ''Airbnb'' ''L2'' 50 50 ''Bar'' (Some 4.0) None
     [''kitchen'', ''wifi'', ''air_conditioning''] ''https://example.org/2'' ''entire_place'' None False None"






definition budva_criteria :: SearchCriteria where
  "budva_criteria = main_criteria\<lparr>SearchCriteria.location := ''Budva''\<rparr>"

definition budva_listing :: DetailedPropertyListing where
  "budva_listing = listing_L1\<lparr>PropertyListing.location := ''Budva Old Town''\<rparr>"

definition bare_page_info :: detailed_info where
  "bare_page_info = \<lparr> info_description = None, info_bedrooms = None, info_bathrooms = None,
     info_max_guests = None, info_cleaning_fee = None, info_service_fee = None,
     info_taxes = None, info_security_deposit = None, info_host_name = None,
     info_host_rating = None, info_host_response_time = None,
     info_property_features = Some [], info_house_rules = Some [] \<rparr>"

section \<open>Properties of the value score\<close>

lemma price_step_closed:
  assumes "price_per_night listing \<le> 0 \<or> max_price_per_night criteria \<noteq> 0"
  shows "price_step listing criteria score =
     Inr (score + (if price_per_night listing > 0
                   then max 0 (100 - price_per_night listing / max_price_per_night criteria * 100)
                   else 0) * 0.4)"
proof (cases "price_per_night listing > 0")
  case True
  then have "max_price_per_night criteria \<noteq> 0" using assms by simp
  with True show ?thesis by (simp add: price_step_def py_bind_def py_truediv_def)
next
  case False
  then show ?thesis by (simp add: price_step_def)
qed

lemma amenity_step_closed:
  "amenity_step listing criteria score =
     (if PropertyListing.amenities listing \<noteq> [] \<and> SearchCriteria.amenities criteria = []
      then Inl ZeroDivisionError
      else Inr (score + (if PropertyListing.amenities listing \<noteq> []
            then real (length (filter (\<lambda>a. a \<in> set (PropertyListing.amenities listing))
                                      (SearchCriteria.amenities criteria)))
                 / real (length (SearchCriteria.amenities criteria)) * 100 else 0) * 0.3))"
  by (simp add: amenity_step_def py_bind_def py_truediv_def)

lemma rating_step_closed:
  "rating_step listing score = score + (case rating listing of None \<Rightarrow> 0 | Some r \<Rightarrow> r / 5 * 100) * 0.2"
  by (simp add: rating_step_def split: option.splits)

lemma host_step_closed:
  "host_step listing score = score + (case host_rating listing of None \<Rightarrow> 0 | Some h \<Rightarrow> h / 5 * 100) * 0.1"
  by (simp add: host_step_def split: option.splits)

lemma value_score_closed_form:
  assumes "price_per_night listing \<le> 0 \<or> max_price_per_night criteria \<noteq> 0"
  shows "calculate_value_score listing criteria =
     (if PropertyListing.amenities listing \<noteq> [] \<and> SearchCriteria.amenities criteria = []
      then Inl ZeroDivisionError
      else Inr ((if price_per_night listing > 0
                 then max 0 (100 - price_per_night listing / max_price_per_night criteria * 100)
                 else 0) * 0.4
         + (if PropertyListing.amenities listing \<noteq> []
            then real (length (filter (\<lambda>a. a \<in> set (PropertyListing.amenities listing))
                                      (SearchCriteria.amenities criteria)))
                 / real (length (SearchCriteria.amenities criteria)) * 100 else 0) * 0.3
         + (case rating listing of None \<Rightarrow> 0 | Some r \<Rightarrow> r / 5 * 100) * 0.2
         + (case host_rating listing of None \<Rightarrow> 0 | Some h \<Rightarrow> h / 5 * 100) * 0.1))"
  unfolding calculate_value_score_def price_step_closed[OF assms] amenity_step_closed
    rating_step_closed host_step_closed py_bind_def
  by simp

lemma price_term_mono:
  fixes m p1 p2 :: real
  assumes "0 < m" "0 < p1" "p1 \<le> p2"
  shows "max 0 (100 - p2 / m * 100) \<le> max 0 (100 - p1 / m * 100)"
proof -
  have "p1 / m \<le> p2 / m" using assms by (simp add: divide_right_mono)
  then have "100 - p2 / m * 100 \<le> 100 - p1 / m * 100" by linarith
  then show ?thesis by (rule max.mono[OF order_refl])
qed

lemma price_term_zero:
  fixes m p2 :: real
  assumes "0 < m" "m \<le> p2"
  shows "max 0 (100 - p2 / m * 100) = 0"
proof -
  have "1 \<le> p2 / m" using assms by simp
  then have "100 - p2 / m * 100 \<le> 0" by linarith
  then show ?thesis by (rule max.absorb1)
qed


lemma lower_Bar: "lower ''Bar'' = ''bar''"
  by code_simp

lemma lower_Budva_Old_Town: "lower ''Budva Old Town'' = ''budva old town''"
  by code_simp

lemma lower_Budva: "lower ''Budva'' = ''budva''"
  by code_simp

lemmas example_defs = listing_L1_def listing_L2_def main_criteria_def DetailedPropertyListing_init_def

text \<open>
  Claim C1, as stated: a listing with \<open>price_per_night = 0\<close> receives a price sub-score of
  100, that is 40 points.  The code guards the price block with
  \<^verbatim>\<open>if listing.price_per_night > 0\<close>, so a zero-price listing receives no price
  points at all: the first example listing at price 0 scores 38 (amenities 20, rating 18),
  not 78.
\<close>

theorem zero_price_gets_40_counterexample:
  "price_per_night (listing_L1\<lparr>price_per_night := 0\<rparr>) = 0
   \<and> 0 < max_price_per_night main_criteria
   \<and> calculate_value_score (listing_L1\<lparr>price_per_night := 0\<rparr>) main_criteria = Inr 38
   \<and> calculate_value_score (listing_L1\<lparr>price_per_night := 0\<rparr>) main_criteria
       \<noteq> Inr (100 * 0.4 + 20 + 18)"
  by (simp add: value_score_closed_form example_defs)

text \<open>
  Claim C1, amended: for a listing with \<open>price_per_night = 0\<close> the price block is skipped
  and contributes 0 points.  The value score is the sum of the amenity, rating and host
  terms alone, and it equals the score of the same listing priced exactly at
  \<open>max_price_per_night\<close>, where the price sub-score is 0.
\<close>

theorem zero_price_contributes_nothing:
  assumes "price_per_night listing = 0" and "0 < max_price_per_night criteria"
  shows "calculate_value_score listing criteria =
     (if PropertyListing.amenities listing \<noteq> [] \<and> SearchCriteria.amenities criteria = []
      then Inl ZeroDivisionError
      else Inr ((if PropertyListing.amenities listing \<noteq> []
            then real (length (filter (\<lambda>a. a \<in> set (PropertyListing.amenities listing))
                                      (SearchCriteria.amenities criteria)))
                 / real (length (SearchCriteria.amenities criteria)) * 100 else 0) * 0.3
         + (case rating listing of None \<Rightarrow> 0 | Some r \<Rightarrow> r / 5 * 100) * 0.2
         + (case host_rating listing of None \<Rightarrow> 0 | Some h \<Rightarrow> h / 5 * 100) * 0.1))
   \<and> calculate_value_score listing criteria =
       calculate_value_score (listing\<lparr>price_per_night := max_price_per_night criteria\<rparr>) criteria"
proof -
  have c1: "price_per_night listing \<le> 0 \<or> max_price_per_night criteria \<noteq> 0"
    using assms(1) by simp
  have c2: "price_per_night (listing\<lparr>price_per_night := max_price_per_night criteria\<rparr>) \<le> 0
            \<or> max_price_per_night criteria \<noteq> 0"
    using assms(2) by simp
  show ?thesis
    unfolding value_score_closed_form[OF c1] value_score_closed_form[OF c2]
    using assms by simp
qed

theorem zero_price_contributes_nothing_witness:
  "price_per_night (listing_L1\<lparr>price_per_night := 0\<rparr>) = 0
   \<and> 0 < max_price_per_night main_criteria
   \<and> calculate_value_score (listing_L1\<lparr>price_per_night := 0\<rparr>) main_criteria = Inr 38
   \<and> calculate_value_score (listing_L1\<lparr>price_per_night := 40\<rparr>) main_criteria = Inr 38"
proof -
  have h1: "price_per_night (listing_L1\<lparr>price_per_night := 0\<rparr>) = 0" by simp
  have h2: "0 < max_price_per_night main_criteria" by (simp add: main_criteria_def)
  note t = zero_price_contributes_nothing[OF h1 h2]
  have a: "calculate_value_score (listing_L1\<lparr>price_per_night := 0\<rparr>) main_criteria = Inr 38"
    using conjunct1[OF t] by (simp add: example_defs)
  have b: "calculate_value_score (listing_L1\<lparr>price_per_night := 40\<rparr>) main_criteria
           = calculate_value_score (listing_L1\<lparr>price_per_night := 0\<rparr>) main_criteria"
    using conjunct2[OF t] by (simp add: main_criteria_def)
  show ?thesis using h1 h2 a b by simp
qed

text \<open>
  Claim C2: with \<open>max_price_per_night = 40\<close> and the three desired amenities, the listing
  at price 35 with two matching amenities and rating 4.5 scores exactly 43, the listing at
  price 50 with all three amenities and rating 4.0 scores exactly 46, so the dearer
  listing has the higher value score.
\<close>

theorem worked_example_value_scores:
  "calculate_value_score listing_L1 main_criteria = Inr 43
   \<and> calculate_value_score listing_L2 main_criteria = Inr 46
   \<and> price_per_night listing_L1 < price_per_night listing_L2
   \<and> (43::real) < 46"
  by (simp add: value_score_closed_form example_defs)

text \<open>
  Claim C3, as stated: for \<open>0 \<le> p1 \<le> p2\<close> the score at \<open>p1\<close> is at least the score at
  \<open>p2\<close>.  It fails at \<open>p1 = 0\<close>: the zero-price listing gets no price points, the same
  listing at price 10 gets 30.
\<close>

theorem value_score_monotone_counterexample:
  "0 < max_price_per_night main_criteria \<and> (0::real) \<le> 0 \<and> (0::real) \<le> 10
   \<and> calculate_value_score (listing_L1\<lparr>price_per_night := 0\<rparr>) main_criteria = Inr 38
   \<and> calculate_value_score (listing_L1\<lparr>price_per_night := 10\<rparr>) main_criteria = Inr 68
   \<and> \<not> ((68::real) \<le> 38)"
  by (simp add: value_score_closed_form example_defs)

text \<open>
  Claim C3, amended: for \<open>max_price_per_night > 0\<close> and \<open>0 \<le> p1 \<le> p2\<close>, the value score
  at \<open>p1\<close> is at least the value score at \<open>p2\<close> unless \<open>p1 = 0 < p2 < max_price_per_night\<close>
  (a zero price is skipped by the price block).  Both calls either return, or both raise
  the division fault of the amenity block.
\<close>

theorem value_score_antimono_in_price:
  assumes "0 < max_price_per_night criteria" "0 \<le> p1" "p1 \<le> p2"
      and "0 < p1 \<or> p2 = 0 \<or> max_price_per_night criteria \<le> p2"
  shows "(calculate_value_score (listing\<lparr>price_per_night := p1\<rparr>) criteria = Inl ZeroDivisionError \<and>
          calculate_value_score (listing\<lparr>price_per_night := p2\<rparr>) criteria = Inl ZeroDivisionError)
       \<or> (\<exists>v1 v2. calculate_value_score (listing\<lparr>price_per_night := p1\<rparr>) criteria = Inr v1 \<and>
                  calculate_value_score (listing\<lparr>price_per_night := p2\<rparr>) criteria = Inr v2 \<and> v2 \<le> v1)"
proof -
  let ?m = "max_price_per_night criteria"
  define P where "P = (\<lambda>p::real. if 0 < p then max 0 (100 - p / ?m * 100) else 0)"
  define K where "K = (if PropertyListing.amenities listing \<noteq> []
            then real (length (filter (\<lambda>a. a \<in> set (PropertyListing.amenities listing))
                                      (SearchCriteria.amenities criteria)))
                 / real (length (SearchCriteria.amenities criteria)) * 100 else 0) * 0.3
         + (case rating listing of None \<Rightarrow> 0 | Some r \<Rightarrow> r / 5 * 100) * 0.2
         + (case host_rating listing of None \<Rightarrow> 0 | Some h \<Rightarrow> h / 5 * 100) * 0.1"
  have m: "?m \<noteq> 0" using assms(1) by simp
  have key: "P p2 \<le> P p1"
  proof (cases "0 < p1")
    case True
    then have "0 < p2" using assms(3) by simp
    then show ?thesis using price_term_mono[OF assms(1) True assms(3)] True by (simp add: P_def)
  next
    case False
    then have p1: "p1 = 0" using assms(2) by simp
    show ?thesis
    proof (cases "p2 = 0")
      case True then show ?thesis using p1 by (simp add: P_def)
    next
      case False
      then have "?m \<le> p2" using assms(4) p1 by simp
      then show ?thesis using price_term_zero[OF assms(1)] p1 by (simp add: P_def)
    qed
  qed
  have vs: "calculate_value_score (listing\<lparr>price_per_night := p\<rparr>) criteria =
     (if PropertyListing.amenities listing \<noteq> [] \<and> SearchCriteria.amenities criteria = []
      then Inl ZeroDivisionError else Inr (P p * 0.4 + K))" for p
  proof -
    have c: "price_per_night (listing\<lparr>price_per_night := p\<rparr>) \<le> 0 \<or> ?m \<noteq> 0" using m by simp
    show ?thesis unfolding value_score_closed_form[OF c] P_def K_def by simp
  qed
  show ?thesis
  proof (cases "PropertyListing.amenities listing \<noteq> [] \<and> SearchCriteria.amenities criteria = []")
    case True
    then show ?thesis unfolding vs by simp
  next
    case False
    have "P p2 * 0.4 + K \<le> P p1 * 0.4 + K" using key by simp
    with False show ?thesis unfolding vs by simp
  qed
qed

theorem value_score_antimono_in_price_witness:
  "0 < max_price_per_night main_criteria \<and> (0::real) \<le> 35 \<and> (35::real) \<le> 50
   \<and> ((0::real) < 35 \<or> (50::real) = 0 \<or> max_price_per_night main_criteria \<le> 50)
   \<and> calculate_value_score (listing_L2\<lparr>price_per_night := 35\<rparr>) main_criteria = Inr 51
   \<and> calculate_value_score (listing_L2\<lparr>price_per_night := 50\<rparr>) main_criteria = Inr 46"
proof -
  have h1: "0 < max_price_per_night main_criteria" by (simp add: main_criteria_def)
  have h2: "(0::real) \<le> 35" and h3: "(35::real) \<le> 50" by simp_all
  have h4: "(0::real) < 35 \<or> (50::real) = 0 \<or> max_price_per_night main_criteria \<le> 50" by simp
  have e1: "calculate_value_score (listing_L2\<lparr>price_per_night := 35\<rparr>) main_criteria = Inr 51"
    by (simp add: value_score_closed_form example_defs)
  have e2: "calculate_value_score (listing_L2\<lparr>price_per_night := 50\<rparr>) main_criteria = Inr 46"
    by (simp add: value_score_closed_form example_defs)
  from value_score_antimono_in_price[OF h1 h2 h3 h4, of listing_L2]
  show ?thesis using h1 e1 e2 by simp
qed

text \<open>
  Claim C4, as stated: with an empty criteria amenity list the value score evaluates
  without a division fault for every listing.  The amenity block is guarded by the
  listing's own amenity list, not by the criteria's, and divides by
  \<^verbatim>\<open>len(criteria.amenities)\<close>: the first example listing raises.
\<close>

theorem empty_criteria_amenities_counterexample:
  "SearchCriteria.amenities (main_criteria\<lparr>SearchCriteria.amenities := []\<rparr>) = []
   \<and> PropertyListing.amenities listing_L1 = [''kitchen'', ''wifi'']
   \<and> calculate_value_score listing_L1 (main_criteria\<lparr>SearchCriteria.amenities := []\<rparr>)
       = Inl ZeroDivisionError"
  by (simp add: value_score_closed_form example_defs)

lemma value_score_price_fault:
  assumes "price_per_night listing > 0" and "max_price_per_night criteria = 0"
  shows "calculate_value_score listing criteria = Inl ZeroDivisionError"
  using assms by (simp add: calculate_value_score_def price_step_def py_bind_def py_truediv_def)

text \<open>
  Claim C4, amended: for every criteria, also one whose amenity list is empty, and every
  listing whose own amenity list is empty, the amenity block is skipped without any
  division and contributes 0.  The value score is then the sum of the price, rating and
  host terms; the one fault left is the price block's own division, raised when the
  listing has a positive price and \<open>max_price_per_night\<close> is 0.
\<close>

theorem empty_listing_amenities_no_fault:
  assumes "PropertyListing.amenities listing = []"
  shows "amenity_step listing criteria score = Inr score
   \<and> calculate_value_score listing criteria =
       (if price_per_night listing > 0 \<and> max_price_per_night criteria = 0
        then Inl ZeroDivisionError
        else Inr ((if price_per_night listing > 0
               then max 0 (100 - price_per_night listing / max_price_per_night criteria * 100)
               else 0) * 0.4
            + (case rating listing of None \<Rightarrow> 0 | Some r \<Rightarrow> r / 5 * 100) * 0.2
            + (case host_rating listing of None \<Rightarrow> 0 | Some h \<Rightarrow> h / 5 * 100) * 0.1))"
proof (cases "price_per_night listing > 0 \<and> max_price_per_night criteria = 0")
  case True
  then show ?thesis
    using assms value_score_price_fault[of listing criteria] by (simp add: amenity_step_closed)
next
  case False
  then have "price_per_night listing \<le> 0 \<or> max_price_per_night criteria \<noteq> 0" by auto
  then show ?thesis
    using assms False by (simp add: amenity_step_closed value_score_closed_form)
qed

theorem empty_listing_amenities_no_fault_witness:
  "PropertyListing.amenities (listing_L1\<lparr>PropertyListing.amenities := []\<rparr>) = []
   \<and> SearchCriteria.amenities (main_criteria\<lparr>SearchCriteria.amenities := []\<rparr>) = []
   \<and> amenity_step (listing_L1\<lparr>PropertyListing.amenities := []\<rparr>)
        (main_criteria\<lparr>SearchCriteria.amenities := []\<rparr>) 5 = Inr 5
   \<and> calculate_value_score (listing_L1\<lparr>PropertyListing.amenities := []\<rparr>)
        (main_criteria\<lparr>SearchCriteria.amenities := []\<rparr>) = Inr 23"
proof -
  have h: "PropertyListing.amenities (listing_L1\<lparr>PropertyListing.amenities := []\<rparr>) = []"
    by simp
  show ?thesis
    using empty_listing_amenities_no_fault[OF h, of "main_criteria\<lparr>SearchCriteria.amenities := []\<rparr>" 5]
    by (simp add: example_defs)
qed

section \<open>Properties of the location score\<close>

text \<open>
  Claim C5, as stated: the score is 80 when the listing's location text contains the
  primary locale token derived from \<open>criteria.location\<close>.  The token is the literal
  \<open>bar\<close> whatever the criteria say: searching for Budva, a listing in Budva scores 40 and
  a listing in Bar scores 80.
\<close>

theorem location_token_from_criteria_counterexample:
  "SearchCriteria.location budva_criteria = ''Budva''
   \<and> sublist (lower (SearchCriteria.location budva_criteria))
         (lower (PropertyListing.location budva_listing))
   \<and> calculate_location_score budva_listing budva_criteria = 40
   \<and> \<not> sublist (lower (SearchCriteria.location budva_criteria))
           (lower (PropertyListing.location listing_L1))
   \<and> calculate_location_score listing_L1 budva_criteria = 80"
  by (simp add: calculate_location_score_def budva_criteria_def budva_listing_def
        lower_Bar lower_Budva lower_Budva_Old_Town sublist_code example_defs)

text \<open>
  Claim C5, amended: the score is exactly 80 when the lowercased listing location contains
  the fixed token \<open>bar\<close>, exactly 60 when it instead contains \<open>sutomore\<close> or \<open>petrovac\<close>,
  and exactly 40 otherwise; the result is always one of 40, 60, 80.  The criteria play no
  part.
\<close>

theorem location_score_fixed_tokens:
  "calculate_location_score listing criteria =
     (if sublist ''bar'' (lower (PropertyListing.location listing)) then 80
      else if sublist ''sutomore'' (lower (PropertyListing.location listing))
              \<or> sublist ''petrovac'' (lower (PropertyListing.location listing)) then 60
      else 40)
   \<and> calculate_location_score listing criteria \<in> {40, 60, 80}"
  by (simp add: calculate_location_score_def)

text \<open>
  Claim C10: the location score depends only on the listing's location text; two
  listings with the same location text get the same score under any two criteria.
\<close>

theorem location_score_independent_of_criteria:
  assumes "PropertyListing.location l1 = PropertyListing.location l2"
  shows "calculate_location_score l1 c1 = calculate_location_score l2 c2"
  using assms by (simp add: calculate_location_score_def)

theorem location_score_independent_of_criteria_witness:
  "PropertyListing.location listing_L1 = PropertyListing.location listing_L2
   \<and> calculate_location_score listing_L1 main_criteria
       = calculate_location_score listing_L2 (main_criteria\<lparr>SearchCriteria.location := ''Budva''\<rparr>)"
proof -
  have h: "PropertyListing.location listing_L1 = PropertyListing.location listing_L2"
    by (simp add: example_defs)
  show ?thesis
    using location_score_independent_of_criteria[OF h, of main_criteria
            "main_criteria\<lparr>SearchCriteria.location := ''Budva''\<rparr>"] h
    by simp
qed

section \<open>Properties of the ranking\<close>














section \<open>Properties of the market insights\<close>

text \<open>
  Claim C9: for the empty listing list \<^verbatim>\<open>generate_market_insights\<close> returns the empty
  insight dictionary, with no price distribution, platform comparison or amenity entry,
  and raises nothing.
\<close>

theorem market_insights_of_no_listings:
  "generate_market_insights [] criteria = Inr []
   \<and> (case generate_market_insights [] criteria of
         Inl e \<Rightarrow> False
       | Inr insights \<Rightarrow>
           map_of insights ''price_distribution'' = None
         \<and> map_of insights ''platform_comparison'' = None
         \<and> map_of insights ''popular_amenities'' = None)"
  by (simp add: generate_market_insights_def)

section \<open>Properties of merging\<close>

lemmas merge_defs = get_detailed_property_info_def DetailedPropertyListing_kwargs_def
  DetailedPropertyListing_init_def py_bind_def

text \<open>
  Claim C8, as stated: merging never replaces a field present on the existing listing by
  an absent field of the extended bag.  The merged listing takes its extended fields from
  the bag alone: an existing detailed listing with two bedrooms, merged with a bag that
  has no \<^verbatim>\<open>bedrooms\<close> key, comes back without bedrooms.
\<close>

theorem merge_keeps_present_fields_counterexample:
  "bedrooms (listing_L1\<lparr>bedrooms := Some 2\<rparr>) = Some 2
   \<and> info_bedrooms bare_page_info = None
   \<and> bedrooms (get_detailed_property_info (listing_L1\<lparr>bedrooms := Some 2\<rparr>)
                 (Inr bare_page_info)) = None"
  by (simp add: merge_defs bare_page_info_def)

text \<open>
  Claim C8, amended: merging is idempotent (merging the same page outcome twice yields the
  same listing as merging it once), and it never replaces any of the thirteen basic
  listing fields of the existing listing, whatever the extended bag holds.
\<close>

theorem merge_idempotent_and_keeps_basic_fields:
  "get_detailed_property_info (get_detailed_property_info listing page) page
     = get_detailed_property_info listing page
 \<and> platform (get_detailed_property_info listing page) = platform listing
 \<and> title (get_detailed_property_info listing page) = title listing
 \<and> price_per_night (get_detailed_property_info listing page) = price_per_night listing
 \<and> total_price (get_detailed_property_info listing page) = total_price listing
 \<and> PropertyListing.location (get_detailed_property_info listing page)
     = PropertyListing.location listing
 \<and> rating (get_detailed_property_info listing page) = rating listing
 \<and> review_count (get_detailed_property_info listing page) = review_count listing
 \<and> PropertyListing.amenities (get_detailed_property_info listing page)
     = PropertyListing.amenities listing
 \<and> url (get_detailed_property_info listing page) = url listing
 \<and> PropertyListing.property_type (get_detailed_property_info listing page)
     = PropertyListing.property_type listing
 \<and> host_name (get_detailed_property_info listing page) = host_name listing
 \<and> instant_book (get_detailed_property_info listing page) = instant_book listing
 \<and> cancellation_policy (get_detailed_property_info listing page) = cancellation_policy listing"
  by (cases page) (simp_all add: merge_defs)

section \<open>Properties of the price parser\<close>

lemma ord_comma: "ord CHR '','' = 44" and ord_dot: "ord CHR ''.'' = 46"
  by (simp_all add: ord_def)

lemma not_digit_comma [simp]: "\<not> is_digit (ord CHR '','')"
  by (simp add: ord_comma is_digit_def unicode_decimal_def nd_run_starts_def)

lemma not_digit_dot [simp]: "\<not> is_digit (ord CHR ''.'')"
  by (simp add: ord_dot is_digit_def unicode_decimal_def nd_run_starts_def)

lemma comma_not_dot [simp]: "ord CHR ''.'' \<noteq> ord CHR '',''"
  by (simp add: ord_def)

lemma round_half_even_int [simp]: "round_half_even (of_int k) = k"
  by (simp add: round_half_even_def)

lemma to_double_nat:
  assumes "n < 2 ^ 53"
  shows "to_double (real n) = Finite (real n)"
proof (cases "n = 0")
  case True
  then show ?thesis by (simp add: to_double_def)
next
  case False
  then have n1: "1 \<le> real n" by simp
  define e where "e = \<lfloor>log 2 (real n)\<rfloor>"
  have "0 \<le> log 2 (real n)" using n1 by simp
  then have e0: "0 \<le> e" by (simp add: e_def)
  have "real n < 2 ^ 53" using assms by (metis of_nat_less_iff of_nat_numeral of_nat_power)
  then have "log 2 (real n) < 53" using n1 by (subst log_less_iff) simp_all
  then have e52: "e \<le> 52" unfolding e_def by linarith
  define k where "k = nat (52 - e)"
  have ek: "e - 52 = - int k" using e52 by (simp add: k_def)
  have ulp: "(2::real) powr (of_int (e - 52)) = 1 / 2 ^ k"
    unfolding ek by (simp add: powr_minus powr_realpow inverse_eq_divide)
  have q: "real n / (1 / 2 ^ k) = of_int (int n * 2 ^ k)" by simp
  have r: "of_int (round_half_even (real n / (1 / 2 ^ k))) * (1 / 2 ^ k) = real n"
    unfolding q round_half_even_int by simp
  have big: "\<not> (2::real) ^ 1024 \<le> real n"
  proof -
    have "(2::real) ^ 53 \<le> 2 ^ 1024" by (rule power_increasing) simp_all
    then show ?thesis using \<open>real n < 2 ^ 53\<close> by linarith
  qed
  have m: "max e (- 1022) = e" using e0 by simp
  show ?thesis
    unfolding to_double_def e_def[symmetric] using False m ulp r big by (simp add: Let_def)
qed

lemma to_double_2_53_plus_1: "to_double 9007199254740993 = Finite 9007199254740992"
proof -
  have e': "\<lfloor>log 2 (9007199254740993::real)\<rfloor> = 53"
    by (subst floor_log_eq_powr_iff) simp_all
  have ulp: "(2::real) powr (of_int (53 - 52)) = 2" by simp
  have fl: "\<lfloor>(9007199254740993::real) / 2\<rfloor> = 4503599627370496" by linarith
  have rh: "round_half_even ((9007199254740993::real) / 2) = 4503599627370496"
    unfolding round_half_even_def fl by (simp add: Let_def)
  show ?thesis
    unfolding to_double_def e' by (simp add: Let_def rh)
qed

lemma digits_value_snoc: "digits_value (ds @ [c]) = 10 * digits_value ds + digit_value c"
  by (simp add: digits_value_def)

lemma digits_value_append: "digits_value (a @ b) = digits_value a * 10 ^ length b + digits_value b"
proof (induction b rule: rev_induct)
  case Nil
  then show ?case by (simp add: digits_value_def)
next
  case (snoc c b)
  have "digits_value (a @ b @ [c]) = 10 * digits_value (a @ b) + digit_value c"
    using digits_value_snoc[of "a @ b" c] by simp
  then show ?case using snoc by (simp add: digits_value_snoc algebra_simps)
qed

lemma thousands_fold:
  assumes "list_all (\<lambda>g. length g = 3) gs"
  shows "foldl (\<lambda>acc g. acc * 1000 + digits_value g) (digits_value p) gs = digits_value (p @ concat gs)"
  using assms
proof (induction gs arbitrary: p)
  case Nil
  then show ?case by simp
next
  case (Cons g gs)
  have "digits_value (p @ g) = digits_value p * 1000 + digits_value g"
    using Cons.prems by (simp add: digits_value_append)
  then show ?case using Cons.IH[of "p @ g"] Cons.prems by simp
qed

lemma thousands_value_concat:
  assumes "wf_groups gs"
  shows "thousands_value gs = digits_value (concat gs)"
proof -
  from assms obtain g rest where gs: "gs = g # rest" by (cases gs) (auto simp: wf_groups_def)
  have r: "list_all (\<lambda>g. length g = 3) rest" using assms gs by (simp add: wf_groups_def)
  have "digits_value [] = 0" by (simp add: digits_value_def)
  then have "thousands_value gs = foldl (\<lambda>acc g. acc * 1000 + digits_value g) (digits_value g) rest"
    by (simp add: thousands_value_def gs digits_value_append)
  then show ?thesis using thousands_fold[OF r, of g] gs by simp
qed

lemma replace_comma_join:
  assumes "list_all (list_all is_digit) gs"
  shows "replace_comma (join_commas gs) = concat gs"
  using assms
proof (induction gs rule: join_commas.induct)
  case 1
  then show ?case by (simp add: replace_comma_def)
next
  case (2 g)
  have "filter (\<lambda>c. c \<noteq> ord CHR '','') g = g"
    using 2 by (auto simp: filter_id_conv list_all_iff)
  then show ?case by (simp add: replace_comma_def)
next
  case (3 g v va)
  have "filter (\<lambda>c. c \<noteq> ord CHR '','') g = g"
    using 3(2) by (auto simp: filter_id_conv list_all_iff)
  then show ?case using 3 by (simp add: replace_comma_def)
qed


lemma no_digit_replace_comma:
  assumes "\<forall>c\<in>set s. \<not> is_digit c"
  shows "list_all (\<lambda>c. \<not> digit_or_comma c) (replace_comma s)"
  using assms by (induction s) (auto simp: replace_comma_def digit_or_comma_def)

lemma replace_comma_append: "replace_comma (a @ b) = replace_comma a @ replace_comma b"
  by (simp add: replace_comma_def)

lemma replace_comma_digits:
  assumes "list_all is_digit ds"
  shows "replace_comma ds = ds"
  using assms by (auto simp: replace_comma_def filter_id_conv list_all_iff)

lemma replace_comma_frac_text:
  assumes "list_all is_digit fs"
  shows "replace_comma (frac_text fs) = frac_text fs"
  using replace_comma_digits[OF assms] by (simp add: frac_text_def replace_comma_def)

lemma re_search_skip:
  assumes "list_all (\<lambda>c. \<not> digit_or_comma c) p"
  shows "re_search (p @ s) = re_search s"
  using assms by (induction p) simp_all

lemma re_search_none:
  assumes "list_all (\<lambda>c. \<not> digit_or_comma c) s"
  shows "re_search s = None"
  using assms by (induction s) simp_all

lemma takeWhile_is_digit_none:
  assumes "list_all (\<lambda>c. \<not> digit_or_comma c) q"
  shows "takeWhile is_digit q = []"
  using assms by (cases q) (simp_all add: digit_or_comma_def)

lemma takeWhile_class_none:
  assumes "list_all (\<lambda>c. \<not> digit_or_comma c) q"
  shows "takeWhile digit_or_comma q = []" and "dropWhile digit_or_comma q = q"
  using assms by (cases q; simp)+

lemma digits_are_class:
  assumes "list_all is_digit D"
  shows "\<And>x. x \<in> set D \<Longrightarrow> digit_or_comma x"
  using assms by (simp add: list_all_iff digit_or_comma_def)

lemma digits_takeWhile:
  assumes "list_all is_digit D"
  shows "takeWhile is_digit D = D" and "dropWhile is_digit D = []"
    and "takeWhile digit_or_comma D = D" and "dropWhile digit_or_comma D = []"
  using assms by (simp_all add: list_all_iff digit_or_comma_def)

lemma match_here_number:
  assumes D: "list_all is_digit D" and fs: "list_all is_digit fs"
      and q: "list_all (\<lambda>c. \<not> digit_or_comma c) q"
  shows "match_here (D @ frac_text fs @ q) = D @ frac_text fs
       \<or> (fs = [] \<and> match_here (D @ frac_text fs @ q) = D @ [ord CHR ''.''])"
proof (cases "fs = []")
  case True
  have tw: "takeWhile digit_or_comma (D @ q) = D"
    using takeWhile_append2[of D digit_or_comma q] digits_are_class[OF D] takeWhile_class_none(1)[OF q]
    by simp
  have dw: "dropWhile digit_or_comma (D @ q) = q"
    using dropWhile_append2[of D digit_or_comma q] digits_are_class[OF D] takeWhile_class_none(2)[OF q]
    by simp
  show ?thesis
  proof (cases q)
    case Nil
    have "match_here D = D"
      unfolding match_here_def digits_takeWhile(3,4)[OF D] by simp
    then show ?thesis using True Nil by (simp add: frac_text_def)
  next
    case (Cons c q')
    have q': "list_all (\<lambda>c. \<not> digit_or_comma c) q'" using q Cons by simp
    have c: "\<not> is_digit c" using q Cons by (simp add: digit_or_comma_def)
    have "match_here (D @ q) = (if c = ord CHR ''.'' then D @ [ord CHR ''.''] else D)"
      using tw dw Cons takeWhile_is_digit_none[OF q'] c by (simp add: match_here_def)
    then show ?thesis using True by (simp add: frac_text_def)
  qed
next
  case False
  let ?rest = "ord CHR ''.'' # fs @ q"
  have nd: "\<not> digit_or_comma (ord CHR ''.'')" by (simp add: digit_or_comma_def)
  have tw: "takeWhile digit_or_comma (D @ ?rest) = D"
    using takeWhile_append2[of D digit_or_comma ?rest] digits_are_class[OF D] nd by simp
  have dw: "dropWhile digit_or_comma (D @ ?rest) = ?rest"
    using dropWhile_append2[of D digit_or_comma ?rest] digits_are_class[OF D] nd by simp
  have fsq: "takeWhile is_digit (fs @ q) = fs"
    using takeWhile_append2[of fs is_digit q] fs takeWhile_is_digit_none[OF q]
    by (simp add: list_all_iff)
  have "match_here (D @ ?rest) = D @ ord CHR ''.'' # fs"
    using tw dw fsq by (simp add: match_here_def)
  then show ?thesis using False by (simp add: frac_text_def)
qed

lemma py_float_number:
  assumes D: "D \<noteq> []" "list_all is_digit D" and fs: "list_all is_digit fs"
  shows "py_float (D @ frac_text fs)
           = Inr (to_double (real (digits_value D) + real (digits_value fs) / 10 ^ length fs))"
    and "py_float (D @ [ord CHR ''.'']) = Inr (to_double (real (digits_value D)))"
proof -
  have nd: "\<not> is_digit (ord CHR ''.'')" by simp
  have tw: "takeWhile is_digit (D @ ord CHR ''.'' # r) = D" for r
    using takeWhile_append2[of D is_digit "ord CHR ''.'' # r"] D(2) nd by (simp add: list_all_iff)
  have dw: "dropWhile is_digit (D @ ord CHR ''.'' # r) = ord CHR ''.'' # r" for r
    using dropWhile_append2[of D is_digit "ord CHR ''.'' # r"] D(2) nd by (simp add: list_all_iff)
  have z: "digits_value [] = 0" by (simp add: digits_value_def)
  show "py_float (D @ frac_text fs)
           = Inr (to_double (real (digits_value D) + real (digits_value fs) / 10 ^ length fs))"
  proof (cases "fs = []")
    case True
    have "py_float D = Inr (to_double (real (digits_value D)))"
      unfolding py_float_def digits_takeWhile(1,2)[OF D(2)] using D(1) by simp
    then show ?thesis using True z by (simp add: frac_text_def)
  next
    case False
    then show ?thesis using tw[of fs] dw[of fs] D(1) fs by (simp add: py_float_def frac_text_def)
  qed
  show "py_float (D @ [ord CHR ''.'']) = Inr (to_double (real (digits_value D)))"
    using tw[of "[]"] dw[of "[]"] D(1) z by (simp add: py_float_def)
qed

lemma search_number:
  assumes D: "D \<noteq> []" "list_all is_digit D" and fs: "list_all is_digit fs"
      and p: "list_all (\<lambda>c. \<not> digit_or_comma c) p"
      and q: "list_all (\<lambda>c. \<not> digit_or_comma c) q"
  shows "\<exists>m. re_search (p @ D @ frac_text fs @ q) = Some m
           \<and> py_float m = Inr (to_double (real (digits_value D) + real (digits_value fs) / 10 ^ length fs))"
proof -
  obtain d D' where DD: "D = d # D'" using D(1) by (cases D) auto
  have dc: "digit_or_comma d" using D(2) DD by (simp add: digit_or_comma_def)
  have "re_search (p @ D @ frac_text fs @ q) = re_search (D @ frac_text fs @ q)"
    by (rule re_search_skip[OF p])
  also have "\<dots> = Some (match_here (D @ frac_text fs @ q))"
    using dc DD by simp
  finally have s: "re_search (p @ D @ frac_text fs @ q) = Some (match_here (D @ frac_text fs @ q))" .
  from match_here_number[OF D(2) fs q]
  show ?thesis
  proof
    assume "match_here (D @ frac_text fs @ q) = D @ frac_text fs"
    then show ?thesis using s py_float_number(1)[OF D fs] by simp
  next
    assume a: "fs = [] \<and> match_here (D @ frac_text fs @ q) = D @ [ord CHR ''.'']"
    from a have fs0: "fs = []" by (rule conjunct1)
    from a have mh: "match_here (D @ frac_text fs @ q) = D @ [ord CHR ''.'']" by (rule conjunct2)
    have z: "digits_value fs = 0" using fs0 by (simp add: digits_value_def)
    show ?thesis using s py_float_number(2)[OF D fs] z by (simp add: mh)
  qed
qed

lemma concat_digits:
  assumes "wf_groups gs"
  shows "concat gs \<noteq> []" and "list_all is_digit (concat gs)"
proof -
  from assms obtain g rest where gs: "gs = g # rest" by (cases gs) (auto simp: wf_groups_def)
  show "concat gs \<noteq> []" using assms gs by (simp add: wf_groups_def)
  show "list_all is_digit (concat gs)" using assms by (auto simp: wf_groups_def list_all_iff)
qed


lemma round_half_even_error: "\<bar>real_of_int (round_half_even q) - q\<bar> \<le> 1 / 2"
  unfolding round_half_even_def Let_def by (auto; linarith)

lemma to_double_error:
  assumes "0 < x" and "to_double x = Finite r"
  shows "\<bar>r - x\<bar> \<le> max (x * 2 powr (- 53)) (2 powr (- 1075))"
proof -
  define e where "e = max \<lfloor>log 2 x\<rfloor> (- 1022)"
  define ulp :: real where "ulp = 2 powr (of_int (e - 52))"
  have ulp0: "0 < ulp" by (simp add: ulp_def)
  have r: "r = of_int (round_half_even (x / ulp)) * ulp"
    using assms by (auto simp: to_double_def Let_def e_def ulp_def split: if_splits)
  have "r - x = (of_int (round_half_even (x / ulp)) - x / ulp) * ulp"
    using ulp0 by (simp add: r left_diff_distrib)
  then have "\<bar>r - x\<bar> = \<bar>of_int (round_half_even (x / ulp)) - x / ulp\<bar> * ulp"
    using ulp0 by (simp add: abs_mult)
  also have "\<dots> \<le> 1 / 2 * ulp"
    using round_half_even_error[of "x / ulp"] ulp0 by (intro mult_right_mono) simp_all
  also have "1 / 2 * ulp = 2 powr (of_int e - 53)"
    by (simp add: ulp_def powr_diff field_simps)
  finally have b: "\<bar>r - x\<bar> \<le> 2 powr (of_int e - 53)" .
  show ?thesis
  proof (cases "- 1022 \<le> \<lfloor>log 2 x\<rfloor>")
    case True
    then have ee: "e = \<lfloor>log 2 x\<rfloor>" by (simp add: e_def)
    have "of_int e \<le> log 2 x" by (simp add: ee)
    then have "2 powr (of_int e) \<le> x" using assms(1) by (subst (asm) le_log_iff) simp_all
    then have "2 powr (of_int e - 53) \<le> x * 2 powr (- 53)"
      by (simp add: powr_diff powr_minus field_simps)
    then show ?thesis using b by linarith
  next
    case False
    then have ee: "e = - 1022" by (simp add: e_def)
    have "2 powr (of_int e - 53) = (2::real) powr (- 1075)" by (simp add: ee)
    then show ?thesis using b by linarith
  qed
qed

lemma round_half_even_ge_floor: "\<lfloor>q\<rfloor> \<le> round_half_even q"
  by (simp add: round_half_even_def Let_def)

lemma to_double_overflow:
  assumes "2 ^ 1024 \<le> x"
  shows "to_double x = Infinity"
proof -
  have x0: "0 < x" using assms by (smt (verit) zero_less_power)
  define e where "e = \<lfloor>log 2 x\<rfloor>"
  have "(2::real) powr (of_int 1024) \<le> x" using assms by simp
  then have "of_int 1024 \<le> log 2 x" using x0 by (subst le_log_iff) simp_all
  then have e1024: "1024 \<le> e" unfolding e_def by (simp add: le_floor_iff)
  then have m: "max e (- 1022) = e" by simp
  define ulp :: real where "ulp = 2 powr (of_int (e - 52))"
  have ulp0: "0 < ulp" by (simp add: ulp_def)
  have "of_int e \<le> log 2 x" by (simp add: e_def)
  then have pe: "2 powr (of_int e) \<le> x" using x0 by (subst (asm) le_log_iff) simp_all
  have split: "(2::real) powr (of_int e) = 2 ^ 52 * ulp"
    by (simp add: ulp_def powr_diff)
  have "2 ^ 52 \<le> x / ulp" using pe ulp0 by (simp add: split pos_le_divide_eq)
  then have "(2::int) ^ 52 \<le> \<lfloor>x / ulp\<rfloor>" by (simp add: le_floor_iff)
  then have "(2::int) ^ 52 \<le> round_half_even (x / ulp)"
    using round_half_even_ge_floor[of "x / ulp"] by linarith
  then have "(2::real) ^ 52 \<le> of_int (round_half_even (x / ulp))"
    by (metis of_int_le_iff of_int_numeral of_int_power)
  then have "2 ^ 52 * ulp \<le> of_int (round_half_even (x / ulp)) * ulp"
    using ulp0 by (intro mult_right_mono) simp_all
  moreover have "(2::real) ^ 1024 \<le> 2 powr (of_int e)"
  proof -
    have "(2::real) powr (of_int 1024) \<le> 2 powr (of_int e)"
      using e1024 by (intro powr_mono) simp_all
    then show ?thesis by simp
  qed
  ultimately have big: "2 ^ 1024 \<le> of_int (round_half_even (x / ulp)) * ulp"
    using split by linarith
  show ?thesis
    unfolding to_double_def e_def[symmetric] m using x0 big
    by (simp add: Let_def ulp_def)
qed

lemma extract_price_number:
  assumes wf: "wf_groups gs" and fs: "list_all is_digit fs"
      and pre: "\<forall>c\<in>set pre. \<not> is_digit c" and post: "\<forall>c\<in>set post. \<not> is_digit c"
  shows "extract_price (pre @ join_commas gs @ frac_text fs @ post)
        = Inr (to_double (real (thousands_value gs) + real (digits_value fs) / 10 ^ length fs))"
proof -
  have gsd: "list_all (list_all is_digit) gs" using wf by (simp add: wf_groups_def)
  have p: "list_all (\<lambda>c. \<not> digit_or_comma c) (replace_comma pre)"
    using pre by (rule no_digit_replace_comma)
  have q: "list_all (\<lambda>c. \<not> digit_or_comma c) (replace_comma post)"
    using post by (rule no_digit_replace_comma)
  have r: "replace_comma (pre @ join_commas gs @ frac_text fs @ post)
          = replace_comma pre @ concat gs @ frac_text fs @ replace_comma post"
    by (simp add: replace_comma_append replace_comma_join[OF gsd] replace_comma_frac_text[OF fs])
  from search_number[OF concat_digits[OF wf] fs p q]
  obtain m where m: "re_search (replace_comma pre @ concat gs @ frac_text fs @ replace_comma post) = Some m"
      "py_float m = Inr (to_double (real (digits_value (concat gs)) + real (digits_value fs) / 10 ^ length fs))"
    by blast
  show ?thesis
    unfolding extract_price_def r m(1) using m(2) thousands_value_concat[OF wf] by simp
qed

lemmas digit_defs = ord_def str_def is_digit_def digit_value_def unicode_decimal_def nd_run_starts_def

text \<open>
  Claim C7, as stated: a text holding a single well-formed decimal number gives back that
  number exactly.  The parser returns a double: the text \<open>9007199254740993\<close>
  (\<open>2 ^ 53 + 1\<close>) is a well-formed number, and the parser returns 9007199254740992.
\<close>

theorem extract_price_exact_counterexample:
  "wf_groups [str ''9007199254740993'']
   \<and> real (thousands_value [str ''9007199254740993'']) = 9007199254740993
   \<and> extract_price (str ''9007199254740993'') = Inr (Finite 9007199254740992)
   \<and> extract_price (str ''9007199254740993'') \<noteq> Inr (Finite 9007199254740993)"
proof -
  have wf: "wf_groups [str ''9007199254740993'']"
    by (simp add: wf_groups_def digit_defs)
  have v: "thousands_value [str ''9007199254740993''] = 9007199254740993"
    by (simp add: thousands_value_def digits_value_def digit_defs)
  have "extract_price ([] @ join_commas [str ''9007199254740993''] @ frac_text [] @ [])
          = Inr (to_double (real (thousands_value [str ''9007199254740993''])
                 + real (digits_value []) / 10 ^ length ([]::nat list)))"
    by (rule extract_price_number[OF wf]) simp_all
  then have e: "extract_price (str ''9007199254740993'') = Inr (Finite 9007199254740992)"
    using to_double_2_53_plus_1 by (simp add: frac_text_def v digits_value_def)
  show ?thesis using wf v e by simp
qed

text \<open>
  Claim C7, amended: for every text the price parser returns a number and raises nothing.
  For a text that holds a single well-formed decimal number (digit groups, optionally
  separated by commas in thousands, optionally followed by a fraction) between two
  digit-free parts, such as a currency symbol before and a unit after, it returns that
  number as \<^verbatim>\<open>float\<close> converts it: rounded to the nearest double, within a relative
  error of \<open>2 powr (- 53)\<close> (or \<open>2 powr (- 1075)\<close> absolute for the smallest numbers)
  when finite, infinity for a number of \<open>2 ^ 1024\<close> or more, and exactly the number
  when it is a whole number below \<open>2 ^ 53\<close>.  For a text without digits it returns
  0.0.
\<close>

theorem extract_price_contract:
  "(\<exists>v. extract_price s = Inr v)
   \<and> (wf_groups gs \<and> list_all is_digit fs
        \<and> (\<forall>c\<in>set pre. \<not> is_digit c) \<and> (\<forall>c\<in>set post. \<not> is_digit c) \<longrightarrow>
      extract_price (pre @ join_commas gs @ frac_text fs @ post)
        = Inr (to_double (real (thousands_value gs) + real (digits_value fs) / 10 ^ length fs))
      \<and> (\<forall>r. extract_price (pre @ join_commas gs @ frac_text fs @ post) = Inr (Finite r) \<longrightarrow>
            \<bar>r - (real (thousands_value gs) + real (digits_value fs) / 10 ^ length fs)\<bar>
              \<le> max ((real (thousands_value gs) + real (digits_value fs) / 10 ^ length fs)
                        * 2 powr (- 53))
                     (2 powr (- 1075)))
      \<and> (2 ^ 1024 \<le> real (thousands_value gs) + real (digits_value fs) / 10 ^ length fs \<longrightarrow>
            extract_price (pre @ join_commas gs @ frac_text fs @ post) = Inr Infinity))
   \<and> (wf_groups gs \<and> thousands_value gs < 2 ^ 53
        \<and> (\<forall>c\<in>set pre. \<not> is_digit c) \<and> (\<forall>c\<in>set post. \<not> is_digit c) \<longrightarrow>
      extract_price (pre @ join_commas gs @ post) = Inr (Finite (real (thousands_value gs))))
   \<and> ((\<forall>c\<in>set s. \<not> is_digit c) \<longrightarrow> extract_price s = Inr (Finite 0.0))"
proof -
  have a: "\<exists>v. extract_price s = Inr v"
    by (simp add: extract_price_def split: sum.splits option.splits)
  have b: "\<bar>r - (real (thousands_value gs) + real (digits_value fs) / 10 ^ length fs)\<bar>
              \<le> max ((real (thousands_value gs) + real (digits_value fs) / 10 ^ length fs)
                        * 2 powr (- 53))
                     (2 powr (- 1075))"
    if e: "extract_price (pre @ join_commas gs @ frac_text fs @ post) = Inr (Finite r)"
      and n: "extract_price (pre @ join_commas gs @ frac_text fs @ post)
        = Inr (to_double (real (thousands_value gs) + real (digits_value fs) / 10 ^ length fs))"
    for r
  proof -
    let ?v = "real (thousands_value gs) + real (digits_value fs) / 10 ^ length fs"
    have td: "to_double ?v = Finite r" using e n by simp
    have v0: "0 \<le> ?v" by simp
    show ?thesis
    proof (cases "?v = 0")
      case True
      then have "r = 0" using td by (simp add: to_double_def)
      then show ?thesis using True by simp
    next
      case False
      then have "0 < ?v" using v0 by linarith
      then show ?thesis using td by (rule to_double_error)
    qed
  qed
  have d: "extract_price s = Inr (Finite 0.0)" if "\<forall>c\<in>set s. \<not> is_digit c"
  proof -
    have "re_search (replace_comma s) = None"
      using that by (intro re_search_none no_digit_replace_comma)
    then show ?thesis by (simp add: extract_price_def)
  qed
  have o: "extract_price (pre @ join_commas gs @ frac_text fs @ post) = Inr Infinity"
    if "2 ^ 1024 \<le> real (thousands_value gs) + real (digits_value fs) / 10 ^ length fs"
      and "extract_price (pre @ join_commas gs @ frac_text fs @ post)
        = Inr (to_double (real (thousands_value gs) + real (digits_value fs) / 10 ^ length fs))"
    using that to_double_overflow by simp
  have c: "extract_price (pre @ join_commas gs @ post) = Inr (Finite (real (thousands_value gs)))"
    if wf: "wf_groups gs" and small: "thousands_value gs < 2 ^ 53"
      and pre: "\<forall>c\<in>set pre. \<not> is_digit c" and post: "\<forall>c\<in>set post. \<not> is_digit c"
  proof -
    have z: "digits_value [] = 0" by (simp add: digits_value_def)
    have "extract_price (pre @ join_commas gs @ frac_text [] @ post)
        = Inr (to_double (real (thousands_value gs) + real (digits_value []) / 10 ^ length ([]::nat list)))"
      by (rule extract_price_number[OF wf _ pre post]) simp
    then show ?thesis using to_double_nat[OF small] z by (simp add: frac_text_def)
  qed
  show ?thesis using a b c d o extract_price_number[of gs fs pre post] by blast
qed

lemma ex_text:
  "str ''$'' @ join_commas [str ''1'', str ''234''] @ frac_text (str ''56'') @ str '' per night''
     = str ''$1,234.56 per night''"
  "str ''$'' @ join_commas [str ''1'', str ''234''] @ str '' per night'' = str ''$1,234 per night''"
  by (simp_all add: frac_text_def str_def)

lemma ex_wf: "wf_groups [str ''1'', str ''234'']"
  by (simp add: wf_groups_def digit_defs)

lemma ex_fs: "list_all is_digit (str ''56'')"
  by (simp add: digit_defs)

lemma ex_pre: "\<forall>c\<in>set (str ''$''). \<not> is_digit c"
  by (simp add: digit_defs)

lemma ex_post: "\<forall>c\<in>set (str '' per night''). \<not> is_digit c"
  by (simp add: digit_defs)

lemma ex_free: "\<forall>c\<in>set (str ''free''). \<not> is_digit c"
  by (simp add: digit_defs)

lemma ex_val: "thousands_value [str ''1'', str ''234''] = 1234" "digits_value (str ''56'') = 56"
  by (simp_all add: thousands_value_def digits_value_def digit_defs)

theorem extract_price_contract_witness:
  "wf_groups [str ''1'', str ''234''] \<and> list_all is_digit (str ''56'')
   \<and> thousands_value [str ''1'', str ''234''] < 2 ^ 53
   \<and> list_all (\<lambda>c. \<not> is_digit c) (str ''$'') \<and> list_all (\<lambda>c. \<not> is_digit c) (str '' per night'')
   \<and> extract_price (str ''$1,234.56 per night'') = Inr (to_double (1234 + 56 / 10\<^sup>2))
   \<and> extract_price (str ''$1,234 per night'') = Inr (Finite 1234)
   \<and> list_all (\<lambda>c. \<not> is_digit c) (str ''free'') \<and> extract_price (str ''free'') = Inr (Finite 0)"
proof -
  note t = extract_price_contract[of "str ''free''" "[str ''1'', str ''234'']" "str ''56''"
             "str ''$''" "str '' per night''"]
  have small: "thousands_value [str ''1'', str ''234''] < 2 ^ 53" by (simp add: ex_val)
  have t2: "extract_price (str ''$'' @ join_commas [str ''1'', str ''234''] @ frac_text (str ''56'')
              @ str '' per night'')
            = Inr (to_double (real (thousands_value [str ''1'', str ''234''])
                   + real (digits_value (str ''56'')) / 10 ^ length (str ''56'')))"
    using t ex_wf ex_fs ex_pre ex_post by blast
  have t3: "extract_price (str ''$'' @ join_commas [str ''1'', str ''234''] @ str '' per night'')
            = Inr (Finite (real (thousands_value [str ''1'', str ''234''])))"
    using t ex_wf small ex_pre ex_post by blast
  have a: "extract_price (str ''$1,234.56 per night'') = Inr (to_double (1234 + 56 / 10\<^sup>2))"
    using t2 unfolding ex_text ex_val by (simp add: str_def)
  have b: "extract_price (str ''$1,234 per night'') = Inr (Finite 1234)"
    using t3 unfolding ex_text ex_val by simp
  have c: "extract_price (str ''free'') = Inr (Finite 0)"
    using t ex_free by simp
  show ?thesis using a b c ex_wf ex_fs small ex_pre ex_post ex_free by (simp add: list_all_iff)
qed

end
